theory Spec2Isabelle
  imports Main "HOL-Library.Sublist"
begin

section \<open>Values of the host language\<close>

text \<open>
  A TypeScript value of type \<open>T | null | undefined\<close>. The two absent values are kept
  apart because string interpolation prints them differently.
\<close>

datatype 'a nullable = JsUndefined | JsNull | JsVal 'a

text \<open>
  The result of an optional chain \<open>a?.b?.includes(x)\<close>: \<open>None\<close> is \<open>undefined\<close> (some link
  of the chain was absent), \<open>Some b\<close> is the boolean that \<open>Array.prototype.includes\<close> returned.
\<close>

definition arr_includes :: "'a list option \<Rightarrow> 'a \<Rightarrow> bool option" where
  "arr_includes xs x = (case xs of None \<Rightarrow> None | Some ys \<Rightarrow> Some (x \<in> set ys))"

text \<open>Truthiness of \<open>boolean | undefined\<close>, as tested by \<open>if\<close>, \<open>? :\<close> and \<open>!!\<close>.\<close>

definition truthy :: "bool option \<Rightarrow> bool" where
  "truthy v = (case v of None \<Rightarrow> False | Some b \<Rightarrow> b)"

text \<open>\<open>String.prototype.includes\<close>: the search string occurs somewhere in the subject.\<close>

fun str_includes :: "string \<Rightarrow> string \<Rightarrow> bool" where
  "str_includes [] t = (t = [])"
| "str_includes (c # cs) t = (prefix t (c # cs) \<or> str_includes cs t)"

section \<open>Data model\<close>

subsection \<open>Enumerations of \<open>types/library\<close>\<close>

datatype VideoBasicFilter = IsSD | IsHD | Is4K | Is3D

datatype FeatureFilters =
  HasSubtitles | HasTrailer | HasSpecialFeature | HasThemeSong | HasThemeVideo

datatype EpisodeFilter = ParentIndexNumber | IsMissing | IsUnaired

datatype ViewMode = GridView | ListView

subsection \<open>Enumerations of the SDK\<close>

datatype ImageType =
  Primary | Art | Backdrop | Banner | Logo | Thumb | Disc | Box | Screenshot | Menu
  | Chapter | BoxRear | Profile

datatype SortOrder = Ascending | Descending

text \<open>
  The members of \<open>ItemFields\<close> that \<open>getItemFieldsEnum\<close> can push; the enumeration has
  further members, none of which the functions below produce.
\<close>

datatype ItemFields = BasicSyncInfo | MediaSourceCount | PrimaryImageAspectRatio | DateCreated

text \<open>
  \<open>ItemSortBy\<close> is a string enumeration: at run time a member is its string value, and
  \<open>SortBy.includes\<close> in \<open>ItemsView\<close> is the string method.
\<close>

type_synonym ItemSortBy = string

definition SortName :: ItemSortBy where
  "SortName = ''SortName''"

definition SeriesSortName :: ItemSortBy where
  "SeriesSortName = ''SeriesSortName''"

definition Random :: ItemSortBy where
  "Random = ''Random''"

subsection \<open>View categories\<close>

text \<open>
  Modelled from the spec: the declaration of the enumeration \<open>LibraryTab\<close>
  (\<open>types/libraryTab\<close>) is not among the sources. The members \<open>Songs\<close>, \<open>Albums\<close>,
  \<open>Episodes\<close>, \<open>Artists\<close> and \<open>Networks\<close> are named by the code; the others stand for the
  remaining view categories (movies and the generic ones). It is a string enumeration:
  \<open>tabValue\<close> is the string value of a member, which is what a template literal prints,
  taken to be the member's name in lower camel case. The properties of the settings key
  use only that these values are pairwise distinct and contain no blank.
\<close>

datatype LibraryTab =
  Albums | AlbumArtists | Artists | Books | Channels | Collections | Episodes | Favorites
  | Genres_tab | Guide | Movies | MusicVideos | Networks | PhotoAlbums | Photos | Playlists
  | Programs | Recordings | Schedule | Series | SeriesTimers | Songs | Suggestions
  | Trailers | Upcoming | Videos

fun tabValue :: "LibraryTab \<Rightarrow> string" where
  "tabValue Albums = ''albums''"
| "tabValue AlbumArtists = ''albumArtists''"
| "tabValue Artists = ''artists''"
| "tabValue Books = ''books''"
| "tabValue Channels = ''channels''"
| "tabValue Collections = ''collections''"
| "tabValue Episodes = ''episodes''"
| "tabValue Favorites = ''favorites''"
| "tabValue Genres_tab = ''genres''"
| "tabValue Guide = ''guide''"
| "tabValue Movies = ''movies''"
| "tabValue MusicVideos = ''musicVideos''"
| "tabValue Networks = ''networks''"
| "tabValue PhotoAlbums = ''photoAlbums''"
| "tabValue Photos = ''photos''"
| "tabValue Playlists = ''playlists''"
| "tabValue Programs = ''programs''"
| "tabValue Recordings = ''recordings''"
| "tabValue Schedule = ''schedule''"
| "tabValue Series = ''series''"
| "tabValue SeriesTimers = ''seriesTimers''"
| "tabValue Songs = ''songs''"
| "tabValue Suggestions = ''suggestions''"
| "tabValue Trailers = ''trailers''"
| "tabValue Upcoming = ''upcoming''"
| "tabValue Videos = ''videos''"

subsection \<open>The settings record\<close>

text \<open>
  The filter selection. Every field is an optional array; the fields are those that
  \<open>getFiltersQuery\<close> and the three extractors read. Members of SDK string enumerations
  (\<open>SeriesStatus\<close>, \<open>VideoTypes\<close>, \<open>Status\<close>) are kept as their string values, since they
  are passed through unchanged.
\<close>

record Filters =
  Features :: "FeatureFilters list option"
  EpisodeFilter :: "EpisodeFilter list option"
  VideoBasicFilter :: "VideoBasicFilter list option"
  SeriesStatus :: "string list option"
  VideoTypes :: "string list option"
  Status :: "string list option"
  Genres :: "string list option"
  OfficialRatings :: "string list option"
  Tags :: "string list option"
  Years :: "int list option"
  StudioIds :: "string list option"

record LibraryViewSettings =
  ShowTitle :: bool
  ShowYear :: bool
  ViewMode :: ViewMode
  ImageType :: ImageType
  CardLayout :: bool
  SortBy :: ItemSortBy
  SortOrder :: SortOrder
  StartIndex :: nat
  Filters :: "Filters option"
  Alphabet :: "string nullable"

type_synonym ParentId = "string nullable"

text \<open>The filter object with no field set.\<close>

definition noFilters :: Filters where
  "noFilters = \<lparr> Features = None, EpisodeFilter = None, VideoBasicFilter = None,
     SeriesStatus = None, VideoTypes = None, Status = None, Genres = None,
     OfficialRatings = None, Tags = None, Years = None, StudioIds = None \<rparr>"

section \<open>Filter extraction (\<open>utils/items\<close>)\<close>

text \<open>\<open>libraryViewSettings.Filters?.VideoBasicFilter\<close> and its two siblings.\<close>

definition videoBasicSel :: "LibraryViewSettings \<Rightarrow> VideoBasicFilter list option" where
  "videoBasicSel s = (case Filters s of None \<Rightarrow> None | Some f \<Rightarrow> VideoBasicFilter f)"

definition featuresSel :: "LibraryViewSettings \<Rightarrow> FeatureFilters list option" where
  "featuresSel s = (case Filters s of None \<Rightarrow> None | Some f \<Rightarrow> Features f)"

definition episodeSel :: "LibraryViewSettings \<Rightarrow> EpisodeFilter list option" where
  "episodeSel s = (case Filters s of None \<Rightarrow> None | Some f \<Rightarrow> EpisodeFilter f)"

record VideoBasicResult =
  isHd :: "bool option"
  is4K :: "bool option"
  is3D :: "bool option"

text \<open>
  \<open>isHd\<close> starts out undefined; the first \<open>if\<close> may set it to true, the second \<open>if\<close>,
  which is not an \<open>else\<close> branch, may then set it to false.
\<close>

definition getVideoBasicFilter :: "LibraryViewSettings \<Rightarrow> VideoBasicResult" where
  "getVideoBasicFilter s =
     (let isHd0 = None;
          isHd1 = (if truthy (arr_includes (videoBasicSel s) IsHD) then Some True else isHd0);
          isHd2 = (if truthy (arr_includes (videoBasicSel s) IsSD) then Some False else isHd1)
      in \<lparr> isHd = isHd2,
           is4K = (if truthy (arr_includes (videoBasicSel s) Is4K) then Some True else None),
           is3D = (if truthy (arr_includes (videoBasicSel s) Is3D) then Some True else None) \<rparr>)"

record FeatureResult =
  hasSubtitles :: "bool option"
  hasTrailer :: "bool option"
  hasSpecialFeature :: "bool option"
  hasThemeSong :: "bool option"
  hasThemeVideo :: "bool option"

definition getFeatureFilters :: "LibraryViewSettings \<Rightarrow> FeatureResult" where
  "getFeatureFilters s =
     \<lparr> hasSubtitles =
         (if truthy (arr_includes (featuresSel s) HasSubtitles) then Some True else None),
       hasTrailer =
         (if truthy (arr_includes (featuresSel s) HasTrailer) then Some True else None),
       hasSpecialFeature =
         (if truthy (arr_includes (featuresSel s) HasSpecialFeature) then Some True else None),
       hasThemeSong =
         (if truthy (arr_includes (featuresSel s) HasThemeSong) then Some True else None),
       hasThemeVideo =
         (if truthy (arr_includes (featuresSel s) HasThemeVideo) then Some True else None) \<rparr>"

record EpisodeResult =
  parentIndexNumber :: "nat option"
  isMissing :: "bool option"
  isUnaired :: "bool option"

definition getEpisodeFilter :: "LibraryTab \<Rightarrow> LibraryViewSettings \<Rightarrow> EpisodeResult" where
  "getEpisodeFilter viewType s =
     \<lparr> parentIndexNumber =
         (if truthy (arr_includes (episodeSel s) ParentIndexNumber) then Some 0 else None),
       isMissing =
         (if viewType = Episodes then Some (truthy (arr_includes (episodeSel s) IsMissing))
          else None),
       isUnaired =
         (if truthy (arr_includes (episodeSel s) IsUnaired) then Some True else None) \<rparr>"

section \<open>Query building (\<open>utils/items\<close>)\<close>

text \<open>The array starts empty and each \<open>push\<close> appends at the end.\<close>

definition getItemFieldsEnum :: "LibraryTab \<Rightarrow> LibraryViewSettings \<Rightarrow> ItemFields list" where
  "getItemFieldsEnum viewType s =
     (let f0 = [];
          f1 = (if viewType \<noteq> Networks then f0 @ [BasicSyncInfo, MediaSourceCount] else f0);
          f2 = (if ImageType s = Primary then f1 @ [PrimaryImageAspectRatio] else f1);
          f3 = (if viewType = Networks then f2 @ [DateCreated, PrimaryImageAspectRatio]
                else f2)
      in f3)"

text \<open>The query object \<open>{ fields }\<close>; the field is suffixed, \<open>fields\<close> being taken.\<close>

record FieldsQuery =
  fields_q :: "ItemFields list"

definition getFieldsQuery :: "LibraryTab \<Rightarrow> LibraryViewSettings \<Rightarrow> FieldsQuery" where
  "getFieldsQuery viewType s = \<lparr> fields_q = getItemFieldsEnum viewType s \<rparr>"

record AlphaPickerQuery =
  nameLessThan :: "string option"
  nameStartsWith :: "string option"

text \<open>
  \<open>alphabetValue\<close> is the alphabet when it is not \<open>null\<close>, and \<open>undefined\<close> otherwise; so
  it is a string or \<open>undefined\<close>.
\<close>

definition alphabetValue :: "LibraryViewSettings \<Rightarrow> string option" where
  "alphabetValue s =
     (case Alphabet s of JsNull \<Rightarrow> None | JsUndefined \<Rightarrow> None | JsVal a \<Rightarrow> Some a)"

definition getAlphaPickerQuery :: "LibraryViewSettings \<Rightarrow> AlphaPickerQuery" where
  "getAlphaPickerQuery s =
     \<lparr> nameLessThan = (if alphabetValue s = Some ''#'' then Some ''A'' else None),
       nameStartsWith = (if alphabetValue s = Some ''#'' then None else alphabetValue s) \<rparr>"

section \<open>Settings key and default settings (\<open>utils/items\<close>)\<close>

text \<open>What a template literal prints for a parent id.\<close>

fun parentIdText :: "ParentId \<Rightarrow> string" where
  "parentIdText JsUndefined = ''undefined''"
| "parentIdText JsNull = ''null''"
| "parentIdText (JsVal p) = p"

definition getSettingsKey :: "LibraryTab \<Rightarrow> ParentId \<Rightarrow> string" where
  "getSettingsKey viewType parentId = tabValue viewType @ '' - '' @ parentIdText parentId"

text \<open>The literal names no \<open>Filters\<close> and no \<open>Alphabet\<close>: both are undefined.\<close>

definition getDefaultLibraryViewSettings :: "LibraryTab \<Rightarrow> LibraryViewSettings" where
  "getDefaultLibraryViewSettings viewType =
     \<lparr> ShowTitle = True,
       ShowYear = False,
       ViewMode = (if viewType = Songs then ListView else GridView),
       ImageType = (if viewType = Networks then Thumb else Primary),
       CardLayout = False,
       SortBy = SortName,
       SortOrder = Ascending,
       StartIndex = 0,
       Filters = None,
       Alphabet = JsUndefined \<rparr>"

section \<open>Rendering options and derived flags (\<open>ItemsView\<close>)\<close>

text \<open>
  The card options that \<open>getCardOptions\<close> fills in. Fields that the object literal leaves
  \<open>undefined\<close>, or that are assigned only on some paths, are options. \<open>context\<close> is the
  collection type handed to the component, an opaque string here.
\<close>

record CardOptions =
  shape :: string
  showTitle :: bool
  showYear :: bool
  cardLayout :: bool
  centerText :: bool
  context_co :: "string option"
  coverImage :: bool
  preferThumb :: "bool option"
  preferDisc :: "bool option"
  preferLogo :: "bool option"
  overlayPlayButton :: bool
  overlayMoreButton :: bool
  overlayText :: bool
  showParentTitle :: "bool option"
  lines :: "nat option"

text \<open>The \<open>if\<close> chain on the image type: shape, preferThumb, preferDisc, preferLogo.\<close>

definition shapeOf :: "ImageType \<Rightarrow> string \<times> bool option \<times> bool option \<times> bool option" where
  "shapeOf t =
     (if t = Banner then (''banner'', None, None, None)
      else if t = Disc then (''square'', None, Some True, None)
      else if t = Logo then (''backdrop'', None, None, Some True)
      else if t = Thumb then (''backdrop'', Some True, None, None)
      else (''auto'', None, None, None))"

text \<open>
  The object literal first, then the branch on the view category, which may set
  \<open>showParentTitle\<close> or overwrite \<open>showYear\<close> and the local \<open>lines\<close>, then the
  assignment of \<open>lines\<close>.
\<close>

definition getCardOptions ::
  "LibraryTab \<Rightarrow> string option \<Rightarrow> LibraryViewSettings \<Rightarrow> CardOptions" where
  "getCardOptions viewType collectionType s =
     (let lines0 = (if ShowTitle s then 2 else 0);
          (shape0, preferThumb0, preferDisc0, preferLogo0) = shapeOf (ImageType s);
          cardOptions0 =
            \<lparr> shape = shape0,
              showTitle = ShowTitle s,
              showYear = ShowYear s,
              cardLayout = CardLayout s,
              centerText = True,
              context_co = collectionType,
              coverImage = True,
              preferThumb = preferThumb0,
              preferDisc = preferDisc0,
              preferLogo = preferLogo0,
              overlayPlayButton = False,
              overlayMoreButton = True,
              overlayText = (\<not> ShowTitle s),
              showParentTitle = None,
              lines = None \<rparr>;
          (cardOptions1, lines1) =
            (if viewType = Songs \<or> viewType = Albums \<or> viewType = Episodes
             then (cardOptions0\<lparr>showParentTitle := Some (ShowTitle s)\<rparr>, lines0)
             else if viewType = Artists
             then (cardOptions0\<lparr>showYear := False\<rparr>, 1)
             else (cardOptions0, lines0))
      in cardOptions1\<lparr>lines := Some lines1\<rparr>)"

text \<open>
  \<open>!!filter\<close> for a value that is an array or \<open>undefined\<close>: an array is an object, and
  every object is truthy, the empty array included.
\<close>

definition truthy_arr :: "'a list option \<Rightarrow> bool" where
  "truthy_arr v = (case v of None \<Rightarrow> False | Some xs \<Rightarrow> True)"

text \<open>
  \<open>Object.values(filters)\<close> with the callback \<open>(filter) => !!filter\<close> applied to each
  value. A field that is not set contributes \<open>undefined\<close>, which is falsy, or nothing.
\<close>

definition filterValuesTruthy :: "Filters \<Rightarrow> bool list" where
  "filterValuesTruthy f =
     [truthy_arr (Features f), truthy_arr (EpisodeFilter f), truthy_arr (VideoBasicFilter f),
      truthy_arr (SeriesStatus f), truthy_arr (VideoTypes f), truthy_arr (Status f),
      truthy_arr (Genres f), truthy_arr (OfficialRatings f), truthy_arr (Tags f),
      truthy_arr (Years f), truthy_arr (StudioIds f)]"

text \<open>\<open>Filters ?? {}\<close>: without a filter object there is no value to test.\<close>

definition hasFilters :: "LibraryViewSettings \<Rightarrow> bool" where
  "hasFilters s =
     list_ex (\<lambda>b. b) (case Filters s of None \<Rightarrow> [] | Some f \<Rightarrow> filterValuesTruthy f)"

definition hasSortName :: "LibraryViewSettings \<Rightarrow> bool" where
  "hasSortName s = str_includes (SortBy s) SortName"

section \<open>Notions used to state the properties\<close>

text \<open>A flag is selected when the filter object and its array exist and hold the flag.\<close>

definition videoBasicSelected :: "LibraryViewSettings \<Rightarrow> VideoBasicFilter \<Rightarrow> bool" where
  "videoBasicSelected s x =
     (case Filters s of None \<Rightarrow> False
      | Some f \<Rightarrow> (case VideoBasicFilter f of None \<Rightarrow> False | Some xs \<Rightarrow> x \<in> set xs))"

definition episodeSelected :: "LibraryViewSettings \<Rightarrow> EpisodeFilter \<Rightarrow> bool" where
  "episodeSelected s x =
     (case Filters s of None \<Rightarrow> False
      | Some f \<Rightarrow> (case EpisodeFilter f of None \<Rightarrow> False | Some xs \<Rightarrow> x \<in> set xs))"

text \<open>A filter field counts as a selection when it is a non-empty collection.\<close>

definition nonEmpty :: "'a list option \<Rightarrow> bool" where
  "nonEmpty v = (case v of None \<Rightarrow> False | Some xs \<Rightarrow> xs \<noteq> [])"

text \<open>A filter field is present when it is set at all, to an empty collection or not.\<close>

definition present :: "'a list option \<Rightarrow> bool" where
  "present v = (case v of None \<Rightarrow> False | Some xs \<Rightarrow> True)"

text \<open>
  The specification's reading of \<open>hasFilters\<close>: some entry of the filter structure is
  non-empty, an empty collection counting as no selection.
\<close>

definition anyNonEmptyFilter :: "LibraryViewSettings \<Rightarrow> bool" where
  "anyNonEmptyFilter s =
     (case Filters s of None \<Rightarrow> False
      | Some f \<Rightarrow>
          nonEmpty (Features f) \<or> nonEmpty (EpisodeFilter f) \<or> nonEmpty (VideoBasicFilter f)
          \<or> nonEmpty (SeriesStatus f) \<or> nonEmpty (VideoTypes f) \<or> nonEmpty (Status f)
          \<or> nonEmpty (Genres f) \<or> nonEmpty (OfficialRatings f) \<or> nonEmpty (Tags f)
          \<or> nonEmpty (Years f) \<or> nonEmpty (StudioIds f))"

definition anyPresentFilter :: "LibraryViewSettings \<Rightarrow> bool" where
  "anyPresentFilter s =
     (case Filters s of None \<Rightarrow> False
      | Some f \<Rightarrow>
          present (Features f) \<or> present (EpisodeFilter f) \<or> present (VideoBasicFilter f)
          \<or> present (SeriesStatus f) \<or> present (VideoTypes f) \<or> present (Status f)
          \<or> present (Genres f) \<or> present (OfficialRatings f) \<or> present (Tags f)
          \<or> present (Years f) \<or> present (StudioIds f))"

text \<open>
  The specification's reading of \<open>hasSortName\<close>: the sort setting is a sequence of
  sort-field identifiers, written with commas between them, and the flag says that the
  name identifier is one of them.
\<close>

fun sortFieldSequence :: "string \<Rightarrow> string list" where
  "sortFieldSequence [] = [[]]"
| "sortFieldSequence (c # cs) =
     (if c = CHR '','' then [] # sortFieldSequence cs
      else (case sortFieldSequence cs of [] \<Rightarrow> [[c]] | w # ws \<Rightarrow> (c # w) # ws))"

definition sequenceHasSortName :: "LibraryViewSettings \<Rightarrow> bool" where
  "sequenceHasSortName s = (SortName \<in> set (sortFieldSequence (SortBy s)))"

section \<open>Sample settings\<close>

definition withFilters :: "Filters \<Rightarrow> LibraryViewSettings" where
  "withFilters f = (getDefaultLibraryViewSettings Movies)\<lparr>Filters := Some f\<rparr>"

definition hdAndSd :: LibraryViewSettings where
  "hdAndSd = withFilters (noFilters\<lparr>VideoBasicFilter := Some [IsHD, IsSD]\<rparr>)"

definition emptyGenres :: LibraryViewSettings where
  "emptyGenres = withFilters (noFilters\<lparr>Genres := Some []\<rparr>)"

definition bySeriesName :: LibraryViewSettings where
  "bySeriesName = (getDefaultLibraryViewSettings Episodes)\<lparr>SortBy := SeriesSortName\<rparr>"

definition oneGenre :: LibraryViewSettings where
  "oneGenre = withFilters (noFilters\<lparr>Genres := Some [''Drama'']\<rparr>)"

definition missingEpisodes :: LibraryViewSettings where
  "missingEpisodes = withFilters (noFilters\<lparr>EpisodeFilter := Some [IsMissing]\<rparr>)"

definition unairedEpisodes :: LibraryViewSettings where
  "unairedEpisodes = withFilters (noFilters\<lparr>EpisodeFilter := Some [IsUnaired]\<rparr>)"

definition alphabetB :: LibraryViewSettings where
  "alphabetB = (getDefaultLibraryViewSettings Movies)\<lparr>Alphabet := JsVal ''B''\<rparr>"

definition alphabetHash :: LibraryViewSettings where
  "alphabetHash = (getDefaultLibraryViewSettings Movies)\<lparr>Alphabet := JsVal ''#''\<rparr>"

definition alphabetNull :: LibraryViewSettings where
  "alphabetNull = (getDefaultLibraryViewSettings Movies)\<lparr>Alphabet := JsNull\<rparr>"

section \<open>Auxiliary facts\<close>

lemma truthy_includes_vb:
  "truthy (arr_includes (videoBasicSel s) x) = videoBasicSelected s x"
  by (simp add: truthy_def arr_includes_def videoBasicSel_def videoBasicSelected_def
      split: option.splits)

lemma truthy_includes_ep:
  "truthy (arr_includes (episodeSel s) x) = episodeSelected s x"
  by (simp add: truthy_def arr_includes_def episodeSel_def episodeSelected_def
      split: option.splits)

lemma truthy_arr_present: "truthy_arr v = present v"
  by (simp add: truthy_arr_def present_def)

lemma nonEmpty_present: "nonEmpty v \<Longrightarrow> present v"
  by (cases v) (simp_all add: nonEmpty_def present_def)

lemma hasFilters_anyPresent: "hasFilters s = anyPresentFilter s"
  by (cases "Filters s")
     (simp_all add: hasFilters_def anyPresentFilter_def filterValuesTruthy_def
        truthy_arr_present)

lemma anyNonEmpty_anyPresent: "anyNonEmptyFilter s \<Longrightarrow> anyPresentFilter s"
  by (cases "Filters s")
     (auto simp: anyNonEmptyFilter_def anyPresentFilter_def dest: nonEmpty_present)

lemma str_includes_sublist: "str_includes s t = sublist t s"
  by (induction s) (simp_all add: sublist_Cons_right)

text \<open>Two strings that agree and each have their first blank at a known place split alike.\<close>

lemma no_space_split:
  "CHR '' '' \<notin> set a \<Longrightarrow> CHR '' '' \<notin> set b \<Longrightarrow> a @ CHR '' '' # x = b @ CHR '' '' # y
   \<Longrightarrow> a = b \<and> x = y"
proof (induction a arbitrary: b)
  case Nil
  then show ?case by (cases b) auto
next
  case (Cons c a)
  then show ?case by (cases b) auto
qed

lemma tabValue_no_space: "CHR '' '' \<notin> set (tabValue c)"
  by (cases c) simp_all

lemma tabValue_inj: "tabValue c1 = tabValue c2 \<Longrightarrow> c1 = c2"
  by (cases c1; cases c2; simp)

text \<open>Every member of the sequence of sort fields is a piece of the sort setting.\<close>

lemma sortFieldSequence_not_Nil: "sortFieldSequence cs \<noteq> []"
  by (induction cs) (simp_all split: list.splits)

lemma sortFieldSequence_hd_prefix: "prefix (hd (sortFieldSequence cs)) cs"
  by (induction cs) (auto split: list.splits)

lemma sortFieldSequence_sublist: "w \<in> set (sortFieldSequence cs) \<Longrightarrow> sublist w cs"
proof (induction cs arbitrary: w)
  case Nil
  then show ?case by simp
next
  case (Cons c cs)
  show ?case
  proof (cases "c = CHR '',''")
    case True
    with Cons.prems have "w = [] \<or> w \<in> set (sortFieldSequence cs)" by simp
    then show ?thesis
      using Cons.IH by (auto simp: sublist_Cons_right)
  next
    case False
    obtain v vs where sq: "sortFieldSequence cs = v # vs"
      using sortFieldSequence_not_Nil [of cs] by (cases "sortFieldSequence cs") auto
    with False Cons.prems have "w = c # v \<or> w \<in> set vs" by simp
    then show ?thesis
    proof
      assume "w = c # v"
      moreover have "prefix v cs" using sortFieldSequence_hd_prefix [of cs] sq by simp
      ultimately show ?thesis by (simp add: sublist_Cons_right)
    next
      assume "w \<in> set vs"
      then have "w \<in> set (sortFieldSequence cs)" using sq by simp
      then show ?thesis using Cons.IH by (simp add: sublist_Cons_right)
    qed
  qed
qed

lemma sequence_imp_hasSortName: "sequenceHasSortName s \<Longrightarrow> hasSortName s"
  by (simp add: sequenceHasSortName_def hasSortName_def str_includes_sublist
      sortFieldSequence_sublist)

section \<open>Properties of filter extraction\<close>

text \<open>
  C1, as the code has it. \<open>isHd\<close> is false when the SD flag is selected, true when the HD
  flag is selected and the SD flag is not, and absent when neither is; so with both flags
  present SD takes precedence. \<open>is4K\<close> and \<open>is3D\<close> are true when their flag is selected and
  absent otherwise, never false.
\<close>

theorem video_basic_filter_sd_wins:
  "isHd (getVideoBasicFilter s) =
     (if videoBasicSelected s IsSD then Some False
      else if videoBasicSelected s IsHD then Some True else None)
   \<and> is4K (getVideoBasicFilter s) = (if videoBasicSelected s Is4K then Some True else None)
   \<and> is3D (getVideoBasicFilter s) = (if videoBasicSelected s Is3D then Some True else None)"
  by (simp add: getVideoBasicFilter_def truthy_includes_vb)

text \<open>
  C1 as stated gives HD the precedence. With both flags in the selection the second
  \<open>if\<close> overwrites the first and \<open>isHd\<close> is false.
\<close>

theorem video_basic_both_flags_counterexample:
  "videoBasicSelected hdAndSd IsHD \<and> videoBasicSelected hdAndSd IsSD
   \<and> isHd (getVideoBasicFilter hdAndSd) = Some False
   \<and> isHd (getVideoBasicFilter hdAndSd) \<noteq> Some True"
  by (simp add: getVideoBasicFilter_def truthy_includes_vb videoBasicSelected_def hdAndSd_def
      withFilters_def noFilters_def)

text \<open>
  C6. The \<open>isMissing\<close> field is present only for the episodes category: there, with the
  stored flag selected, it is true; for any other category it is absent whatever is stored.
\<close>

theorem episode_is_missing_gate:
  "(isMissing (getEpisodeFilter viewType s) \<noteq> None \<longrightarrow> viewType = Episodes)
   \<and> (episodeSelected s IsMissing \<longrightarrow> isMissing (getEpisodeFilter Episodes s) = Some True)
   \<and> (viewType \<noteq> Episodes \<longrightarrow> isMissing (getEpisodeFilter viewType s) = None)"
  by (simp add: getEpisodeFilter_def truthy_includes_ep)

theorem episode_is_missing_gate_witness:
  "episodeSelected missingEpisodes IsMissing
   \<and> isMissing (getEpisodeFilter Episodes missingEpisodes) = Some True
   \<and> Movies \<noteq> Episodes
   \<and> isMissing (getEpisodeFilter Movies missingEpisodes) = None"
proof -
  have h: "episodeSelected missingEpisodes IsMissing"
    by (simp add: episodeSelected_def missingEpisodes_def withFilters_def noFilters_def)
  have d: "Movies \<noteq> Episodes" by simp
  show ?thesis
    using h d episode_is_missing_gate [of Movies missingEpisodes] by simp
qed

text \<open>
  C10. For the episodes category \<open>isMissing\<close> is always a boolean, never absent: it is
  the explicit value false when the flag is not selected, and also when the filter object
  or its episode array does not exist.
\<close>

theorem episode_is_missing_present:
  "isMissing (getEpisodeFilter Episodes s) = Some (episodeSelected s IsMissing)
   \<and> isMissing (getEpisodeFilter Episodes s) \<noteq> None
   \<and> (\<not> episodeSelected s IsMissing \<longrightarrow>
        isMissing (getEpisodeFilter Episodes s) = Some False)
   \<and> (Filters s = None \<longrightarrow> isMissing (getEpisodeFilter Episodes s) = Some False)
   \<and> (Filters s = Some f \<and> EpisodeFilter f = None \<longrightarrow>
        isMissing (getEpisodeFilter Episodes s) = Some False)"
  by (auto simp: getEpisodeFilter_def truthy_includes_ep episodeSelected_def)

theorem episode_is_missing_present_witness:
  "\<not> episodeSelected unairedEpisodes IsMissing
   \<and> isMissing (getEpisodeFilter Episodes unairedEpisodes) = Some False
   \<and> Filters (getDefaultLibraryViewSettings Episodes) = None
   \<and> isMissing (getEpisodeFilter Episodes (getDefaultLibraryViewSettings Episodes))
       = Some False
   \<and> Filters (withFilters noFilters) = Some noFilters \<and> EpisodeFilter noFilters = None
   \<and> isMissing (getEpisodeFilter Episodes (withFilters noFilters)) = Some False"
proof -
  have a: "\<not> episodeSelected unairedEpisodes IsMissing"
    by (simp add: episodeSelected_def unairedEpisodes_def withFilters_def noFilters_def)
  have b: "Filters (getDefaultLibraryViewSettings Episodes) = None"
    by (simp add: getDefaultLibraryViewSettings_def)
  have c: "Filters (withFilters noFilters) = Some noFilters \<and> EpisodeFilter noFilters = None"
    by (simp add: withFilters_def noFilters_def)
  have r1: "isMissing (getEpisodeFilter Episodes unairedEpisodes) = Some False"
    using a episode_is_missing_present [of unairedEpisodes] by blast
  have r2: "isMissing (getEpisodeFilter Episodes (getDefaultLibraryViewSettings Episodes))
      = Some False"
    using b episode_is_missing_present [of "getDefaultLibraryViewSettings Episodes"]
    by blast
  have r3: "isMissing (getEpisodeFilter Episodes (withFilters noFilters)) = Some False"
    using c episode_is_missing_present [of "withFilters noFilters" noFilters] by blast
  from a b c r1 r2 r3 show ?thesis by blast
qed

section \<open>Properties of query building\<close>

text \<open>
  C3. The sync-info and media-source-count fields are requested exactly when the category
  is not the networks category; the creation-date field exactly when it is; the
  image-aspect-ratio field for the networks category, and for any other category exactly
  when the image type is Primary.
\<close>

theorem fields_query_selection:
  "(BasicSyncInfo \<in> set (fields_q (getFieldsQuery viewType s))) = (viewType \<noteq> Networks)
   \<and> (MediaSourceCount \<in> set (fields_q (getFieldsQuery viewType s))) = (viewType \<noteq> Networks)
   \<and> (DateCreated \<in> set (fields_q (getFieldsQuery viewType s))) = (viewType = Networks)
   \<and> (PrimaryImageAspectRatio \<in> set (fields_q (getFieldsQuery viewType s)))
       = (viewType = Networks \<or> ImageType s = Primary)"
  by (simp add: getFieldsQuery_def getItemFieldsEnum_def Let_def)

text \<open>
  C5. Without an alphabet (undefined or null) both bounds are absent; with the \<open>#\<close>
  sentinel the upper bound is \<open>A\<close> and the prefix is absent; with any other value the prefix
  is that value and the upper bound is absent.
\<close>

theorem alpha_picker_query:
  "((Alphabet s = JsUndefined \<or> Alphabet s = JsNull) \<longrightarrow>
      nameStartsWith (getAlphaPickerQuery s) = None
      \<and> nameLessThan (getAlphaPickerQuery s) = None)
   \<and> (Alphabet s = JsVal ''#'' \<longrightarrow>
      nameLessThan (getAlphaPickerQuery s) = Some ''A''
      \<and> nameStartsWith (getAlphaPickerQuery s) = None)
   \<and> (Alphabet s = JsVal a \<and> a \<noteq> ''#'' \<longrightarrow>
      nameStartsWith (getAlphaPickerQuery s) = Some a
      \<and> nameLessThan (getAlphaPickerQuery s) = None)"
  by (auto simp: getAlphaPickerQuery_def alphabetValue_def)

theorem alpha_picker_query_witness:
  "Alphabet alphabetNull = JsNull
   \<and> nameStartsWith (getAlphaPickerQuery alphabetNull) = None
   \<and> nameLessThan (getAlphaPickerQuery alphabetNull) = None
   \<and> Alphabet alphabetHash = JsVal ''#''
   \<and> nameLessThan (getAlphaPickerQuery alphabetHash) = Some ''A''
   \<and> nameStartsWith (getAlphaPickerQuery alphabetHash) = None
   \<and> Alphabet alphabetB = JsVal ''B'' \<and> ''B'' \<noteq> ''#''
   \<and> nameStartsWith (getAlphaPickerQuery alphabetB) = Some ''B''
   \<and> nameLessThan (getAlphaPickerQuery alphabetB) = None"
proof -
  have a: "Alphabet alphabetNull = JsNull" by (simp add: alphabetNull_def)
  have b: "Alphabet alphabetHash = JsVal ''#''" by (simp add: alphabetHash_def)
  have c: "Alphabet alphabetB = JsVal ''B'' \<and> ''B'' \<noteq> ''#''" by (simp add: alphabetB_def)
  have r1: "nameStartsWith (getAlphaPickerQuery alphabetNull) = None
      \<and> nameLessThan (getAlphaPickerQuery alphabetNull) = None"
    using a alpha_picker_query [of alphabetNull] by blast
  have r2: "nameLessThan (getAlphaPickerQuery alphabetHash) = Some ''A''
      \<and> nameStartsWith (getAlphaPickerQuery alphabetHash) = None"
    using b alpha_picker_query [of alphabetHash] by blast
  have r3: "nameStartsWith (getAlphaPickerQuery alphabetB) = Some ''B''
      \<and> nameLessThan (getAlphaPickerQuery alphabetB) = None"
    using c alpha_picker_query [of alphabetB "''B''"] by blast
  from a b c r1 r2 r3 show ?thesis by blast
qed

section \<open>Properties of the settings key\<close>

text \<open>
  C4, as the code has it. Two keys are equal exactly when the categories are equal and the
  parent ids print alike; so the key is injective on categories and present parent ids. A
  null parent id prints as \<open>null\<close> and an undefined one as \<open>undefined\<close>; neither is elided.
\<close>

theorem settings_key_injective_on_text:
  "(getSettingsKey c1 p1 = getSettingsKey c2 p2)
     = (c1 = c2 \<and> parentIdText p1 = parentIdText p2)
   \<and> (getSettingsKey c1 (JsVal s1) = getSettingsKey c2 (JsVal s2)) = (c1 = c2 \<and> s1 = s2)
   \<and> getSettingsKey c1 JsNull = tabValue c1 @ '' - null''
   \<and> getSettingsKey c1 JsUndefined = tabValue c1 @ '' - undefined''"
proof -
  have inj: "(getSettingsKey c p = getSettingsKey c' p')
      = (c = c' \<and> parentIdText p = parentIdText p')" for c c' p p'
  proof
    assume eq: "getSettingsKey c p = getSettingsKey c' p'"
    then have "tabValue c @ CHR '' '' # (''- '' @ parentIdText p)
        = tabValue c' @ CHR '' '' # (''- '' @ parentIdText p')"
      by (simp add: getSettingsKey_def)
    then have "tabValue c = tabValue c' \<and> ''- '' @ parentIdText p = ''- '' @ parentIdText p'"
      by (rule no_space_split [OF tabValue_no_space tabValue_no_space])
    then show "c = c' \<and> parentIdText p = parentIdText p'"
      using tabValue_inj by simp
  next
    assume "c = c' \<and> parentIdText p = parentIdText p'"
    then show "getSettingsKey c p = getSettingsKey c' p'"
      by (simp add: getSettingsKey_def)
  qed
  have vals: "(getSettingsKey c1 (JsVal s1) = getSettingsKey c2 (JsVal s2))
      = (c1 = c2 \<and> s1 = s2)"
    using inj [of c1 "JsVal s1" c2 "JsVal s2"] by simp
  show ?thesis
    using inj [of c1 p1 c2 p2] vals by (simp add: getSettingsKey_def)
qed

text \<open>
  C4 as stated fails: the absent parent id and the parent id that is the four-letter
  string \<open>null\<close> are different, and their keys are the same.
\<close>

theorem settings_key_collision_counterexample:
  "getSettingsKey Movies JsNull = getSettingsKey Movies (JsVal ''null'')
   \<and> (JsNull :: ParentId) \<noteq> JsVal ''null''"
  by (simp add: getSettingsKey_def)

section \<open>Properties of the default settings\<close>

text \<open>
  C8. The default record has list view for the songs category and grid view otherwise,
  the Thumb image for the networks category and Primary otherwise, the title shown, the
  year hidden, the card layout off, the sort by name, ascending, the offset 0, no filters
  and no alphabet.
\<close>

theorem default_library_view_settings:
  "ViewMode (getDefaultLibraryViewSettings c) = (if c = Songs then ListView else GridView)
   \<and> ImageType (getDefaultLibraryViewSettings c) = (if c = Networks then Thumb else Primary)
   \<and> ShowTitle (getDefaultLibraryViewSettings c) = True
   \<and> ShowYear (getDefaultLibraryViewSettings c) = False
   \<and> CardLayout (getDefaultLibraryViewSettings c) = False
   \<and> SortBy (getDefaultLibraryViewSettings c) = SortName
   \<and> SortOrder (getDefaultLibraryViewSettings c) = Ascending
   \<and> StartIndex (getDefaultLibraryViewSettings c) = 0
   \<and> Filters (getDefaultLibraryViewSettings c) = None
   \<and> Alphabet (getDefaultLibraryViewSettings c) = JsUndefined
   \<and> alphabetValue (getDefaultLibraryViewSettings c) = None"
  by (simp add: getDefaultLibraryViewSettings_def alphabetValue_def)

section \<open>Properties of the rendering options\<close>

text \<open>
  C7. For the artists category the options have one line and no year, whatever the
  settings say, and differ from the options of a category without special treatment in
  these two fields only. For every other category the line count is 2 when titles are
  shown and 0 when they are hidden, and the year follows the settings.
\<close>

theorem card_options_artists:
  "lines (getCardOptions Artists ctx s) = Some 1
   \<and> showYear (getCardOptions Artists ctx s) = False
   \<and> getCardOptions Artists ctx s
       = (getCardOptions Movies ctx s)\<lparr>showYear := False, lines := Some 1\<rparr>
   \<and> showTitle (getCardOptions Artists ctx s) = ShowTitle s
   \<and> (viewType \<noteq> Artists \<longrightarrow>
        lines (getCardOptions viewType ctx s) = Some (if ShowTitle s then 2 else 0)
        \<and> showYear (getCardOptions viewType ctx s) = ShowYear s)"
  by (simp add: getCardOptions_def Let_def split: prod.splits)

theorem card_options_artists_witness:
  "Songs \<noteq> Artists
   \<and> lines (getCardOptions Songs None (getDefaultLibraryViewSettings Songs)) = Some 2
   \<and> showYear (getCardOptions Songs None (getDefaultLibraryViewSettings Songs)) = False"
proof -
  have d: "Songs \<noteq> Artists" by simp
  show ?thesis
    using d card_options_artists [of None "getDefaultLibraryViewSettings Songs" Songs]
    by (simp add: getDefaultLibraryViewSettings_def)
qed

section \<open>Properties of the derived flags\<close>

text \<open>
  C2, as the code has it. \<open>hasFilters\<close> is true exactly when some field of the filter
  object is present, an empty collection included. So it is true whenever some field is
  non-empty, false for a default record, true once a genre is stored, and false once the
  filter object has no field or is gone.
\<close>

theorem has_filters_iff_any_present:
  "hasFilters s = anyPresentFilter s
   \<and> (anyNonEmptyFilter s \<longrightarrow> hasFilters s)
   \<and> \<not> hasFilters (getDefaultLibraryViewSettings c)
   \<and> hasFilters (s\<lparr>Filters := Some (f\<lparr>Genres := Some [g]\<rparr>)\<rparr>)
   \<and> \<not> hasFilters (s\<lparr>Filters := Some noFilters\<rparr>)
   \<and> \<not> hasFilters (s\<lparr>Filters := None\<rparr>)"
proof -
  have a: "hasFilters s = anyPresentFilter s" by (rule hasFilters_anyPresent)
  have b: "anyNonEmptyFilter s \<longrightarrow> hasFilters s"
    using anyNonEmpty_anyPresent a by blast
  have c: "\<not> hasFilters (getDefaultLibraryViewSettings c)"
    by (simp add: hasFilters_def getDefaultLibraryViewSettings_def)
  have d: "hasFilters (s\<lparr>Filters := Some (f\<lparr>Genres := Some [g]\<rparr>)\<rparr>)"
    by (simp add: hasFilters_anyPresent anyPresentFilter_def present_def)
  have e: "\<not> hasFilters (s\<lparr>Filters := Some noFilters\<rparr>)"
    by (simp add: hasFilters_anyPresent anyPresentFilter_def present_def noFilters_def)
  have f: "\<not> hasFilters (s\<lparr>Filters := None\<rparr>)"
    by (simp add: hasFilters_def)
  from a b c d e f show ?thesis by blast
qed

theorem has_filters_iff_any_present_witness:
  "anyNonEmptyFilter oneGenre \<and> hasFilters oneGenre"
proof -
  have h: "anyNonEmptyFilter oneGenre"
    by (simp add: anyNonEmptyFilter_def nonEmpty_def oneGenre_def withFilters_def
        noFilters_def)
  show ?thesis
    using h has_filters_iff_any_present [of oneGenre] by blast
qed

text \<open>
  C2 as stated fails: a genre collection that is present and empty makes \<open>hasFilters\<close>
  true, while no entry of the filter structure is non-empty.
\<close>

theorem has_filters_empty_collection_counterexample:
  "hasFilters emptyGenres \<and> \<not> anyNonEmptyFilter emptyGenres"
  by (simp add: hasFilters_def anyNonEmptyFilter_def filterValuesTruthy_def truthy_arr_def
      nonEmpty_def emptyGenres_def withFilters_def noFilters_def)

text \<open>
  C9, as the code has it. The sort setting is one string, and \<open>hasSortName\<close> is true
  exactly when the text \<open>SortName\<close> occurs somewhere in it. So it is true whenever the
  name identifier is one of the sort fields, true for the name identifier alone, and false
  for an identifier such as \<open>Random\<close> in which the text does not occur.
\<close>

theorem has_sort_name_substring:
  "hasSortName s = (\<exists>pre post. SortBy s = pre @ SortName @ post)
   \<and> (sequenceHasSortName s \<longrightarrow> hasSortName s)
   \<and> hasSortName (s\<lparr>SortBy := SortName\<rparr>)
   \<and> \<not> hasSortName (s\<lparr>SortBy := Random\<rparr>)"
proof -
  have a: "hasSortName s = (\<exists>pre post. SortBy s = pre @ SortName @ post)"
    by (simp add: hasSortName_def str_includes_sublist sublist_def)
  have b: "sequenceHasSortName s \<longrightarrow> hasSortName s"
    using sequence_imp_hasSortName by blast
  have c: "hasSortName (s\<lparr>SortBy := SortName\<rparr>)"
    by (simp add: hasSortName_def str_includes_sublist)
  have d: "\<not> hasSortName (s\<lparr>SortBy := Random\<rparr>)"
    by (simp add: hasSortName_def SortName_def Random_def)
  from a b c d show ?thesis by blast
qed

theorem has_sort_name_substring_witness:
  "sequenceHasSortName (getDefaultLibraryViewSettings Movies)
   \<and> hasSortName (getDefaultLibraryViewSettings Movies)"
proof -
  have h: "sequenceHasSortName (getDefaultLibraryViewSettings Movies)"
    by (simp add: sequenceHasSortName_def getDefaultLibraryViewSettings_def SortName_def)
  show ?thesis
    using h has_sort_name_substring [of "getDefaultLibraryViewSettings Movies"] by blast
qed

text \<open>
  C9 as stated fails: sorting by \<open>SeriesSortName\<close> alone, the sequence of sort fields
  does not include the name identifier, and \<open>hasSortName\<close> is true.
\<close>

theorem has_sort_name_series_counterexample:
  "hasSortName bySeriesName \<and> \<not> sequenceHasSortName bySeriesName
   \<and> sortFieldSequence (SortBy bySeriesName) = [SeriesSortName]"
  by (simp add: hasSortName_def sequenceHasSortName_def bySeriesName_def SortName_def
      SeriesSortName_def)

end
